theory Spec2Isabelle
  imports Complex_Main
begin

section \<open>Strings and exceptions\<close>

text \<open>
  Python text is modelled as \<^typ>\<open>string\<close>, read as the UTF-8 encoding of the text:
  an ASCII character is one \<^typ>\<open>char\<close>, the bullet U+2022 of the formatter is three.
  \<open>sep.join(parts)\<close> is \<open>join sep parts\<close>.
\<close>

fun join :: "string \<Rightarrow> string list \<Rightarrow> string" where
  "join sep [] = []"
| "join sep [p] = p"
| "join sep (p # q # ps) = p @ sep @ join sep (q # ps)"

text \<open>
  An exception object that is an instance of \<open>Exception\<close>: the class the handlers of
  the source tell apart, and the text \<open>str(e)\<close>.
\<close>

datatype exn_class = KeyError | TypeError | ValueError | OtherException

datatype exn = Exn exn_class string

fun exn_str :: "exn \<Rightarrow> string" where
  "exn_str (Exn c msg) = msg"

fun exn_cls :: "exn \<Rightarrow> exn_class" where
  "exn_cls (Exn c msg) = c"

section \<open>The result formatter (core/mentis\_chat.py)\<close>

text \<open>
  A retrieved record is an object of unknown class; the formatter only probes it with
  \<open>hasattr\<close> for four attributes and otherwise calls \<open>str\<close> on it. The record below
  holds, for each probed attribute, \<open>None\<close> when \<open>hasattr\<close> is false and otherwise the text
  the f-string inserts for the attribute's value, and the text \<open>str(model_instance)\<close>.
\<close>

record model_instance =
  title :: "string option"
  name :: "string option"
  description :: "string option"
  content :: "string option"
  str_repr :: string

text \<open>
  An object as the formatter meets it: its attributes, and for a tuple also its first
  component and the remaining ones. A named tuple used as a record is a tuple that has the
  attributes of its fields. The empty tuple, on which \<open>item[0]\<close> raises, is left out.
\<close>

datatype pyobj = Plain model_instance | TupleObj model_instance pyobj "pyobj list"

fun attrs_of :: "pyobj \<Rightarrow> model_instance" where
  "attrs_of (Plain a) = a"
| "attrs_of (TupleObj a first rest) = a"

fun is_tuple :: "pyobj \<Rightarrow> bool" where
  "is_tuple (Plain a) = False"
| "is_tuple (TupleObj a first rest) = True"

text \<open>
  An entry of a category's list: \<open>Scored r s\<close> is the tuple \<open>(r, s)\<close> of a record and its
  score, \<open>Bare r\<close> is the object \<open>r\<close> given on its own. The score has any type \<open>'s\<close>: the
  formatter never reads it. \<open>model_of\<close> is line 41,
  \<open>item[0] if isinstance(item, tuple) else item\<close>, as the attributes of the object it picks:
  the record of a pair, and for an object on its own the object, unless that is itself a
  tuple, of which it is the first component.
\<close>

datatype 's item = Scored pyobj 's | Bare pyobj

fun model_of :: "'s item \<Rightarrow> model_instance" where
  "model_of (Scored r s) = attrs_of r"
| "model_of (Bare (TupleObj a first rest)) = attrs_of first"
| "model_of (Bare (Plain a)) = a"

definition no_info :: string where
  "no_info = ''No relevant information found.''"

definition bullet :: string where
  "bullet = [CHR 0xE2, CHR 0x80, CHR 0xA2, CHR '' '']"

definition category_header :: "string \<Rightarrow> string" where
  "category_header category = [CHR 0x0A] @ ''--- '' @ category @ '' ---''"

text \<open>The \<open>if / elif / elif / else\<close> chain on the record, in the order of the source.\<close>

definition format_model :: "model_instance \<Rightarrow> string" where
  "format_model m =
     (if title m \<noteq> None \<and> description m \<noteq> None
        then bullet @ the (title m) @ '': '' @ the (description m)
      else if name m \<noteq> None \<and> description m \<noteq> None
        then bullet @ the (name m) @ '': '' @ the (description m)
      else if content m \<noteq> None
        then bullet @ the (content m)
      else bullet @ str_repr m)"

text \<open>The inner loop over the items of one category, appending to \<open>formatted_parts\<close>.\<close>

fun format_items :: "'s item list \<Rightarrow> string list \<Rightarrow> string list" where
  "format_items [] formatted_parts = formatted_parts"
| "format_items (item # items) formatted_parts =
     format_items items (formatted_parts @ [format_model (model_of item)])"

text \<open>
  The outer loop over \<open>results.items()\<close>. The dictionary is the list of its
  (category, items) pairs in insertion order.
\<close>

fun format_categories :: "(string \<times> 's item list) list \<Rightarrow> string list \<Rightarrow> string list" where
  "format_categories [] formatted_parts = formatted_parts"
| "format_categories ((category, items) # rest) formatted_parts =
     (if items \<noteq> []
      then format_categories rest
             (format_items items (formatted_parts @ [category_header category]))
      else format_categories rest formatted_parts)"

definition format_main_results :: "(string \<times> 's item list) list \<Rightarrow> string" where
  "format_main_results results =
     (if results = [] then no_info
      else let formatted_parts = format_categories results []
           in if formatted_parts \<noteq> [] then join [CHR 0x0A] formatted_parts else no_info)"

section \<open>The chat session (core/mentis\_chat.py)\<close>

text \<open>
  \<open>Retriever\<close> and \<open>LLM_OA\<close> are classes of modules that are not modelled; a session holds
  their two operations as functions that return a value or raise an \<open>Exception\<close>.
  \<open>retriever.retrieve\<close> returns either a dictionary, of which \<open>chat\<close> reads the entry
  \<open>"results"\<close> when there is one, or a value that is used as the result set itself.
\<close>

datatype 's retrieval_output =
    DictOutput "(string \<times> 's item list) list option"
  | PlainOutput "(string \<times> 's item list) list"

record 's mentis_chat =
  retriever :: "string \<Rightarrow> exn + 's retrieval_output"
  llm :: "string \<Rightarrow> exn + string"

fun main_results_of :: "'s retrieval_output \<Rightarrow> (string \<times> 's item list) list" where
  "main_results_of (DictOutput (Some results)) = results"
| "main_results_of (DictOutput None) = []"
| "main_results_of (PlainOutput results) = results"

text \<open>
  The prompt of \<open>_generate_answer\<close>; \<open>mentisPrompt\<close> is a constant of \<open>config.prompts\<close>
  and is a parameter here.
\<close>

definition answer_prompt :: "string \<Rightarrow> string \<Rightarrow> string \<Rightarrow> string" where
  "answer_prompt mentisPrompt user_query context =
     mentisPrompt @ [CHR 0x0A, CHR 0x0A] @ ''User Question: '' @ user_query
       @ [CHR 0x0A, CHR 0x0A] @ ''Retrieved Information:'' @ [CHR 0x0A] @ context
       @ [CHR 0x0A, CHR 0x0A] @ ''Answer:''"

definition generate_answer :: "string \<Rightarrow> 's mentis_chat \<Rightarrow> string \<Rightarrow> string \<Rightarrow> string" where
  "generate_answer mentisPrompt self user_query context =
     (case llm self (answer_prompt mentisPrompt user_query context) of
        Inr response \<Rightarrow> response
      | Inl e \<Rightarrow> ''Error generating response: '' @ exn_str e)"

text \<open>\<open>chat\<close> has no handler of its own: an exception of the retriever leaves it.\<close>

definition chat :: "string \<Rightarrow> 's mentis_chat \<Rightarrow> string \<Rightarrow> exn + string" where
  "chat mentisPrompt self user_query =
     (case retriever self user_query of
        Inl e \<Rightarrow> Inl e
      | Inr main_retrieval_output \<Rightarrow>
          Inr (generate_answer mentisPrompt self user_query
                 (format_main_results (main_results_of main_retrieval_output))))"

subsection \<open>The session as a scoped resource\<close>

text \<open>The two client connections a session holds, each open or closed.\<close>

record connections =
  vector_store_open :: bool
  llm_client_open :: bool

text \<open>
  Modelled from the spec: the constructors of \<open>Retriever\<close> and \<open>LLM_OA\<close>, called by
  \<open>MentisChat.__init__\<close>, belong to modules that are not modelled; the specification has the Vector Store
  and LLM client connections acquired at the start of a session.
\<close>

definition MentisChat_init :: "connections \<Rightarrow> connections" where
  "MentisChat_init c = c\<lparr>vector_store_open := True, llm_client_open := True\<rparr>"

text \<open>\<open>__enter__\<close> returns \<open>self\<close>; the body of \<open>__exit__\<close> is \<open>pass\<close>.\<close>

definition MentisChat_enter :: "connections \<Rightarrow> connections" where
  "MentisChat_enter c = c"

definition MentisChat_exit :: "connections \<Rightarrow> connections" where
  "MentisChat_exit c = c"

section \<open>The interactive loop (mentis\_main.py)\<close>

text \<open>
  \<open>str.strip()\<close> removes the white space of Python at both ends. On UTF-8 text these are
  the following byte sequences: the ASCII characters 09 to 0D, 1C to 1F and 20, and the
  encodings of U+0085, U+00A0, U+1680, U+2000 to U+200A, U+2028, U+2029, U+202F, U+205F
  and U+3000.
\<close>

definition whitespace :: "string list" where
  "whitespace =
     [[CHR 0x09], [CHR 0x0A], [CHR 0x0B], [CHR 0x0C], [CHR 0x0D],
      [CHR 0x1C], [CHR 0x1D], [CHR 0x1E], [CHR 0x1F], [CHR 0x20],
      [CHR 0xC2, CHR 0x85], [CHR 0xC2, CHR 0xA0], [CHR 0xE1, CHR 0x9A, CHR 0x80],
      [CHR 0xE2, CHR 0x80, CHR 0x80], [CHR 0xE2, CHR 0x80, CHR 0x81],
      [CHR 0xE2, CHR 0x80, CHR 0x82], [CHR 0xE2, CHR 0x80, CHR 0x83],
      [CHR 0xE2, CHR 0x80, CHR 0x84], [CHR 0xE2, CHR 0x80, CHR 0x85],
      [CHR 0xE2, CHR 0x80, CHR 0x86], [CHR 0xE2, CHR 0x80, CHR 0x87],
      [CHR 0xE2, CHR 0x80, CHR 0x88], [CHR 0xE2, CHR 0x80, CHR 0x89],
      [CHR 0xE2, CHR 0x80, CHR 0x8A], [CHR 0xE2, CHR 0x80, CHR 0xA8],
      [CHR 0xE2, CHR 0x80, CHR 0xA9], [CHR 0xE2, CHR 0x80, CHR 0xAF],
      [CHR 0xE2, CHR 0x81, CHR 0x9F], [CHR 0xE3, CHR 0x80, CHR 0x80]]"

function strip_front :: "string list \<Rightarrow> string \<Rightarrow> string" where
  "strip_front ws s =
     (case find (\<lambda>w. w \<noteq> [] \<and> take (length w) s = w) ws of
        None \<Rightarrow> s
      | Some w \<Rightarrow> strip_front ws (drop (length w) s))"
  by pat_completeness auto
termination
proof (relation "measure (\<lambda>(ws, s). length s)")
  show "wf (measure (\<lambda>(ws, s). length s))" by simp
next
  fix ws :: "string list" and s w :: string
  assume "find (\<lambda>w. w \<noteq> [] \<and> take (length w) s = w) ws = Some w"
  then have "w \<noteq> []" and "take (length w) s = w"
    by (auto simp: find_Some_iff)
  then have "s \<noteq> []" by auto
  with \<open>w \<noteq> []\<close> show "((ws, drop (length w) s), (ws, s)) \<in> measure (\<lambda>(ws, s). length s)"
    by (cases w) auto
qed

definition py_strip :: "string \<Rightarrow> string" where
  "py_strip s = rev (strip_front (map rev whitespace) (rev (strip_front whitespace s)))"

text \<open>
  \<open>str.lower()\<close> on the ASCII letters. It also changes letters beyond ASCII, which stay as
  they are here; none of them becomes an ASCII letter of the exit tokens, so the comparison
  with the tokens below is the one of the source.
\<close>

definition py_lower_char :: "char \<Rightarrow> char" where
  "py_lower_char c =
     (case map_of (zip ''ABCDEFGHIJKLMNOPQRSTUVWXYZ'' ''abcdefghijklmnopqrstuvwxyz'') c of
        Some l \<Rightarrow> l
      | None \<Rightarrow> c)"

definition py_lower :: "string \<Rightarrow> string" where
  "py_lower s = map py_lower_char s"

definition exit_tokens :: "string list" where
  "exit_tokens = [''quit'', ''exit'', ''q'']"

text \<open>
  What the terminal has seen and which queries went to \<open>mentis.chat\<close>, in order, with the
  connections of the session. \<open>print(s)\<close> writes \<open>s\<close> and a newline, \<open>input(p)\<close> writes \<open>p\<close>.
\<close>

record cli_state =
  stdout :: string
  submitted :: "string list"
  conns :: connections

definition print :: "string \<Rightarrow> cli_state \<Rightarrow> cli_state" where
  "print s st = st\<lparr>stdout := stdout st @ s @ [CHR 0x0A]\<rparr>"

definition input_prompt :: string where
  "input_prompt = ''=Ask Mentis about your diary: ''"

definition goodbye :: string where
  "goodbye = ''=K Goodbye from Mentis!''"

definition rule80 :: string where
  "rule80 = replicate 80 CHR ''=''"

definition response_block :: "string \<Rightarrow> cli_state \<Rightarrow> cli_state" where
  "response_block response st =
     print ([CHR 0x0A] @ rule80 @ [CHR 0x0A])
       (print response
         (print rule80
           (print ([CHR ''='', CHR 0xF0, CHR 0x9F, CHR 0xA7, CHR 0xA0] @ '' MENTIS RESPONSE'')
             (print ([CHR 0x0A] @ rule80) st))))"

definition error_block :: "exn \<Rightarrow> cli_state \<Rightarrow> cli_state" where
  "error_block e st =
     print (''Please try again.'' @ [CHR 0x0A]) (print (''L Error: '' @ exn_str e) st)"

text \<open>
  One call of \<open>input\<close> writes the prompt and then returns a line, or raises
  \<open>KeyboardInterrupt\<close>, or raises an \<open>Exception\<close> (\<open>EOFError\<close> at the end of the input).
  An interrupt that arrives while a query is being answered is not among the events.
\<close>

datatype input_event = Line string | Interrupt | InputError exn

definition prompted :: "cli_state \<Rightarrow> cli_state" where
  "prompted st = st\<lparr>stdout := stdout st @ input_prompt\<rparr>"

text \<open>The state in which \<open>mentis.chat(user_query)\<close> is called.\<close>

definition asked :: "string \<Rightarrow> cli_state \<Rightarrow> cli_state" where
  "asked user_query st =
     (let st1 = print ([CHR 0x0A] @ ''= Mentis is analyzing your semantic knowledge graph...'') st
      in st1\<lparr>submitted := submitted st1 @ [user_query]\<rparr>)"

datatype run_end = Finished | AwaitingInput

text \<open>
  The \<open>while True\<close> loop, run on the events the terminal delivers: \<open>Finished\<close> when
  the loop has been left by \<open>break\<close>, \<open>AwaitingInput\<close> when the events are used up, the
  loop has written its prompt and waits in \<open>input\<close>.
\<close>

fun main_loop ::
  "string \<Rightarrow> 's mentis_chat \<Rightarrow> input_event list \<Rightarrow> cli_state \<Rightarrow> cli_state \<times> run_end" where
  "main_loop mentisPrompt mentis [] st = (prompted st, AwaitingInput)"
| "main_loop mentisPrompt mentis (Interrupt # events) st =
     (print ([CHR 0x0A] @ goodbye) (prompted st), Finished)"
| "main_loop mentisPrompt mentis (InputError e # events) st =
     main_loop mentisPrompt mentis events (error_block e (prompted st))"
| "main_loop mentisPrompt mentis (Line l # events) st =
     (let user_query = py_strip l
      in if py_lower user_query \<in> set exit_tokens then (print goodbye (prompted st), Finished)
         else if user_query = [] then
           main_loop mentisPrompt mentis events (print ''Please enter a question.'' (prompted st))
         else
           (case chat mentisPrompt mentis user_query of
              Inr response \<Rightarrow>
                main_loop mentisPrompt mentis events
                  (response_block response (asked user_query (prompted st)))
            | Inl e \<Rightarrow>
                main_loop mentisPrompt mentis events
                  (error_block e (asked user_query (prompted st)))))"

definition env_missing :: "(string \<rightharpoonup> string) \<Rightarrow> string \<Rightarrow> bool" where
  "env_missing env var = (case env var of None \<Rightarrow> True | Some v \<Rightarrow> v = [])"

definition initial_state :: cli_state where
  "initial_state =
     \<lparr>stdout = [], submitted = [],
      conns = \<lparr>vector_store_open = False, llm_client_open = False\<rparr>\<rparr>"

text \<open>
  \<open>main\<close>: the two environment checks, the banner, and the loop inside
  \<open>with MentisChat() as mentis\<close>. \<open>__exit__\<close> runs when the loop is left.
\<close>

definition main ::
  "(string \<rightharpoonup> string) \<Rightarrow> string \<Rightarrow> 's mentis_chat \<Rightarrow> input_event list \<Rightarrow> cli_state \<times> run_end" where
  "main env mentisPrompt mentis events =
     (if env_missing env ''USER_ID'' then
        (print ''L USER_ID environment variable is required'' initial_state, Finished)
      else if env_missing env ''OPENAI_API_KEY'' then
        (print ''L OPENAI_API_KEY environment variable is required'' initial_state, Finished)
      else
        let st0 = print (''Type '' @ [CHR 0x27] @ ''quit'' @ [CHR 0x27] @ '' to exit'' @ [CHR 0x0A])
                    (print ''> Mentis initialized - Advanced semantic diary analysis!'' initial_state);
            st1 = st0\<lparr>conns := MentisChat_enter (MentisChat_init (conns st0))\<rparr>
        in case main_loop mentisPrompt mentis events st1 of
             (st2, Finished) \<Rightarrow> (st2\<lparr>conns := MentisChat_exit (conns st2)\<rparr>, Finished)
           | (st2, AwaitingInput) \<Rightarrow> (st2, AwaitingInput))"

section \<open>The evaluation harness (tests/test\_retrieval\_eval.py)\<close>

subsection \<open>Retriever adapters\<close>

text \<open>
  A retriever, as an adapter wraps it: \<open>retrieve(query, limit)\<close> returns texts or raises.
\<close>

type_synonym retrieve_fn = "string \<Rightarrow> nat \<Rightarrow> exn + string list"

text \<open>
  Modelled from the spec: \<open>MentisRetrieverAdapter.retrieve\<close> of \<open>evaluation/adapters.py\<close>
  is not among the modelled sources. Its tests (tests/test\_adapters.py) fix that it passes
  \<open>top_k\<close> on as the limit, returns the retriever's texts, and returns the empty list when
  the retriever raises.
\<close>

definition adapter_retrieve :: "retrieve_fn \<Rightarrow> retrieve_fn" where
  "adapter_retrieve underlying query top_k =
     (case underlying query top_k of
        Inr docs \<Rightarrow> Inr docs
      | Inl e \<Rightarrow> Inr [])"

subsection \<open>Building the dataset\<close>

record eval_data =
  user_input :: "string list"
  retrieved_contexts :: "string list list"

text \<open>The loop of \<open>create_ragas_dataset\<close> over the queries.\<close>

fun collect_eval_data :: "retrieve_fn \<Rightarrow> nat \<Rightarrow> string list \<Rightarrow> eval_data \<Rightarrow> exn + eval_data" where
  "collect_eval_data retrieve top_k [] ed = Inr ed"
| "collect_eval_data retrieve top_k (query # queries) ed =
     (case retrieve query top_k of
        Inl e \<Rightarrow> Inl e
      | Inr retrieved_docs \<Rightarrow>
          if retrieved_docs \<noteq> []
          then collect_eval_data retrieve top_k queries
                 (ed\<lparr>user_input := user_input ed @ [query],
                     retrieved_contexts := retrieved_contexts ed @ [retrieved_docs]\<rparr>)
          else collect_eval_data retrieve top_k queries ed)"

text \<open>
  The dataset of the metrics library is the list of its rows, one for each position of
  the two columns. Entering and leaving the adapter's scope (\<open>with retriever\<close>) belongs to the
  adapter and is left out.
\<close>

type_synonym dataset = "(string \<times> string list) list"

definition create_ragas_dataset :: "retrieve_fn \<Rightarrow> string list \<Rightarrow> nat \<Rightarrow> exn + dataset" where
  "create_ragas_dataset retrieve queries top_k =
     (case collect_eval_data retrieve top_k queries \<lparr>user_input = [], retrieved_contexts = []\<rparr> of
        Inl e \<Rightarrow> Inl e
      | Inr ed \<Rightarrow> Inr (zip (user_input ed) (retrieved_contexts ed)))"

subsection \<open>Result records\<close>

text \<open>
  A result record is a Python dictionary with text keys, kept as the list of its entries in
  insertion order. A Python float is modelled by the real number it stands for.
\<close>

datatype jvalue = JStr string | JInt int | JFloat real

type_synonym result_dict = "(string \<times> jvalue) list"

fun dict_set :: "result_dict \<Rightarrow> string \<Rightarrow> jvalue \<Rightarrow> result_dict" where
  "dict_set [] k v = [(k, v)]"
| "dict_set ((k', v') # d) k v = (if k' = k then (k, v) # d else (k', v') # dict_set d k v)"

definition has_key :: "string \<Rightarrow> result_dict \<Rightarrow> bool" where
  "has_key k d = (k \<in> set (map fst d))"

definition error_result :: "string \<Rightarrow> result_dict" where
  "error_result msg = [(''error'', JStr msg)]"

subsection \<open>Reading the score out of the library's result\<close>

text \<open>
  The result object of the metrics library, by what the harness does with it:
  \<open>str(results)\<close>, \<open>hasattr(results, '__getitem__')\<close> (which lets every exception but
  \<open>AttributeError\<close> through) and \<open>float(results['nv_context_relevance'])\<close>.
\<close>

record ragas_results =
  results_str :: "exn + string"
  results_has_getitem :: "exn + bool"
  results_score :: "exn + real"

definition score_key :: string where
  "score_key = ''nv_context_relevance''"

text \<open>\<open>needle in haystack\<close> on texts.\<close>

fun contains :: "string \<Rightarrow> string \<Rightarrow> bool" where
  "contains needle [] = (needle = [])"
| "contains needle (c # cs) = (take (length needle) (c # cs) = needle \<or> contains needle cs)"

definition is_digit :: "char \<Rightarrow> bool" where
  "is_digit c = (c \<in> set ''0123456789'')"

definition score_char :: "char \<Rightarrow> bool" where
  "score_char c = (is_digit c \<or> c = CHR ''.'')"

text \<open>
  \<open>re.search(r"'nv_context_relevance': ([\d.]+)", raw_str)\<close> and its group 1: the leftmost
  place where the quoted key, a colon and a blank are followed by a digit or a dot, and the
  longest run of digits and dots from there. Digits are the ASCII digits; the decimal digits
  of other scripts, which \<open>\d\<close> and \<open>float\<close> accept as well, are not part of the model.
\<close>

definition score_pattern :: string where
  "score_pattern = [CHR 0x27] @ score_key @ [CHR 0x27] @ '': ''"

fun re_search_score :: "string \<Rightarrow> string option" where
  "re_search_score [] = None"
| "re_search_score (c # cs) =
     (let after = drop (length score_pattern) (c # cs)
      in if take (length score_pattern) (c # cs) = score_pattern \<and> takeWhile score_char after \<noteq> []
         then Some (takeWhile score_char after)
         else re_search_score cs)"

definition digit_val :: "char \<Rightarrow> nat" where
  "digit_val c =
     (case map_of (zip ''0123456789'' [0, 1, 2, 3, 4, 5, 6, 7, 8, 9]) c of
        Some d \<Rightarrow> d
      | None \<Rightarrow> 0)"

definition digits_val :: "string \<Rightarrow> nat" where
  "digits_val ds = foldl (\<lambda>a c. 10 * a + digit_val c) 0 ds"

text \<open>
  \<open>float(s)\<close> for a text of digits and dots, which is all the pattern above hands over: a
  number when there is at most one dot and at least one digit, a \<open>ValueError\<close> otherwise.
  The number is the exact value of the decimal text: the rounding of a Python float, and its
  overflow to \<open>inf\<close>, are not part of the model.
\<close>

definition py_float :: "string \<Rightarrow> exn + real" where
  "py_float s =
     (let int_part = takeWhile is_digit s;
          rest = dropWhile is_digit s;
          bad = Inl (Exn ValueError
                  (''could not convert string to float: '' @ [CHR 0x27] @ s @ [CHR 0x27]))
      in if rest = [] then
           (if int_part = [] then bad else Inr (real (digits_val int_part)))
         else if hd rest = CHR ''.'' \<and> list_all is_digit (tl rest) \<and> (int_part \<noteq> [] \<or> tl rest \<noteq> [])
           then Inr (real (digits_val int_part)
                       + real (digits_val (tl rest)) / 10 ^ length (tl rest))
         else bad)"

text \<open>
  Lines 139 to 156, entered when the result has \<open>__getitem__\<close>. First the pattern is
  tried on the printed result; a \<open>ValueError\<close> of \<open>float\<close> there goes to the handler
  \<open>except Exception\<close>, which prints and leaves the record as it is. Then the direct access:
  \<open>KeyError\<close> and \<open>TypeError\<close> are passed over, any other exception reaches the same printing
  handler.
\<close>

definition extract_scores :: "ragas_results \<Rightarrow> string \<Rightarrow> result_dict \<Rightarrow> result_dict" where
  "extract_scores results raw_str result_dict =
     (let by_pattern =
            (if contains score_key raw_str then
               (case re_search_score raw_str of
                  None \<Rightarrow> Inr result_dict
                | Some g \<Rightarrow>
                    (case py_float g of
                       Inl e \<Rightarrow> Inl e
                     | Inr v \<Rightarrow> Inr (dict_set result_dict score_key (JFloat v))))
             else Inr result_dict)
      in case by_pattern of
           Inl e \<Rightarrow> result_dict
         | Inr d \<Rightarrow>
             (case results_score results of
                Inr score \<Rightarrow> dict_set d score_key (JFloat score)
              | Inl e \<Rightarrow> if exn_cls e = KeyError \<or> exn_cls e = TypeError then d else d))"

definition base_record :: "string \<Rightarrow> nat \<Rightarrow> string \<Rightarrow> result_dict" where
  "base_record retriever_name n raw_str =
     [(''retriever'', JStr retriever_name), (''num_queries'', JInt (int n)),
      (''raw_results'', JStr raw_str)]"

text \<open>The body of the inner \<open>try\<close> (lines 126 to 158); \<open>Inl\<close> is an exception that leaves it.\<close>

definition build_result :: "string \<Rightarrow> nat \<Rightarrow> ragas_results \<Rightarrow> exn + result_dict" where
  "build_result retriever_name n results =
     (case results_str results of
        Inl e \<Rightarrow> Inl e
      | Inr raw_str \<Rightarrow>
          (case results_has_getitem results of
             Inl e \<Rightarrow> Inl e
           | Inr True \<Rightarrow> Inr (extract_scores results raw_str (base_record retriever_name n raw_str))
           | Inr False \<Rightarrow> Inr (base_record retriever_name n raw_str)))"

text \<open>
  The handler \<open>except (KeyError, TypeError, ValueError)\<close> (lines 160 to 169): the record is
  built anew and every metric of \<open>self.metrics\<close>, given by its name, is set to \<open>0.0\<close>.
\<close>

definition default_result :: "string list \<Rightarrow> string \<Rightarrow> nat \<Rightarrow> ragas_results \<Rightarrow> exn + result_dict" where
  "default_result metrics retriever_name n results =
     (case results_str results of
        Inl e \<Rightarrow> Inl e
      | Inr raw_str \<Rightarrow>
          Inr (foldl (\<lambda>d metric. dict_set d metric (JFloat 0)) (base_record retriever_name n raw_str) metrics))"

text \<open>
  \<open>evaluate_retriever\<close>. \<open>evaluate\<close> is the entry point of the metrics library, called with
  the dataset and \<open>self.metrics\<close>. The second component of the result lists the datasets
  \<open>evaluate\<close> has been called on. Console output of the harness is left out.
\<close>

definition evaluate_retriever ::
  "string list \<Rightarrow> (dataset \<Rightarrow> string list \<Rightarrow> exn + ragas_results) \<Rightarrow> string \<Rightarrow> retrieve_fn
     \<Rightarrow> string list \<Rightarrow> result_dict \<times> dataset list" where
  "evaluate_retriever metrics evaluate retriever_name retrieve queries =
     (case create_ragas_dataset retrieve queries 5 of
        Inl e \<Rightarrow> (error_result (exn_str e), [])
      | Inr dataset \<Rightarrow>
          if length dataset = 0 then (error_result ''No valid data'', [])
          else
            (case evaluate dataset metrics of
               Inl e \<Rightarrow> (error_result (exn_str e), [dataset])
             | Inr results \<Rightarrow>
                 (case build_result retriever_name (length dataset) results of
                    Inr result_dict \<Rightarrow> (result_dict, [dataset])
                  | Inl e \<Rightarrow>
                      if exn_cls e \<in> {KeyError, TypeError, ValueError} then
                        (case default_result metrics retriever_name (length dataset) results of
                           Inr result_dict \<Rightarrow> (result_dict, [dataset])
                         | Inl e' \<Rightarrow> (error_result (exn_str e'), [dataset]))
                      else (error_result (exn_str e), [dataset]))))"

text \<open>
  \<open>run_evaluation\<close> over the adapters of \<open>get_all_adapters()\<close>, a dictionary from names
  to adapters given as the list of its entries, and the loaded queries.
\<close>

fun run_evaluation ::
  "string list \<Rightarrow> (dataset \<Rightarrow> string list \<Rightarrow> exn + ragas_results) \<Rightarrow> (string \<times> retrieve_fn) list
     \<Rightarrow> string list \<Rightarrow> (string \<times> result_dict) list" where
  "run_evaluation metrics evaluate [] queries = []"
| "run_evaluation metrics evaluate ((adapter_name, adapter) # adapters) queries =
     (adapter_name, fst (evaluate_retriever metrics evaluate adapter_name adapter queries))
       # run_evaluation metrics evaluate adapters queries"

subsection \<open>Saving the results\<close>

text \<open>
  A file written by \<open>json.dump(result, f, indent=2, ensure_ascii=False)\<close> on a file opened
  for writing with encoding UTF-8: the record that is serialised and the options of the
  serialisation. The file system maps paths to files.
\<close>

record json_file =
  json_value :: result_dict
  json_indent :: nat
  json_ensure_ascii :: bool
  file_encoding :: string

text \<open>
  What the operating system answers to the two calls of \<open>save_results\<close> that can fail:
  \<open>os.makedirs(path, exist_ok=True)\<close> and \<open>open(path, 'w', encoding='utf-8')\<close> raise the
  given exception, or succeed. \<open>os.makedirs('')\<close> always raises \<open>FileNotFoundError\<close>.
\<close>

record os_env =
  makedirs_error :: "string \<Rightarrow> exn option"
  open_error :: "string \<Rightarrow> exn option"

definition os_makedirs :: "os_env \<Rightarrow> string \<Rightarrow> exn option" where
  "os_makedirs os path =
     (if path = []
      then Some (Exn OtherException
             (''[Errno 2] No such file or directory: '' @ [CHR 0x27, CHR 0x27]))
      else makedirs_error os path)"

text \<open>\<open>os.path.join\<close> of two components, on POSIX.\<close>

definition os_path_join :: "string \<Rightarrow> string \<Rightarrow> string" where
  "os_path_join a b =
     (if b \<noteq> [] \<and> hd b = CHR ''/'' then b
      else if a = [] \<or> last a = CHR ''/'' then a @ b
      else a @ ''/'' @ b)"

definition results_path :: "string \<Rightarrow> string \<Rightarrow> string" where
  "results_path output_dir retriever_name =
     os_path_join output_dir (''results_'' @ retriever_name @ ''.json'')"

text \<open>
  The loop of \<open>save_results\<close> over \<open>results.items()\<close>. An exception of \<open>open\<close> ends it:
  the result is the file system as it then is, with the exception, and the later retrievers
  are not saved.
\<close>

fun save_each ::
  "os_env \<Rightarrow> (string \<times> result_dict) list \<Rightarrow> string \<Rightarrow> (string \<rightharpoonup> json_file)
     \<Rightarrow> (string \<rightharpoonup> json_file) \<times> exn option" where
  "save_each os [] output_dir fs = (fs, None)"
| "save_each os ((retriever_name, result) # results) output_dir fs =
     (if \<not> has_key ''error'' result
      then (case open_error os (results_path output_dir retriever_name) of
              Some e \<Rightarrow> (fs, Some e)
            | None \<Rightarrow>
                save_each os results output_dir
                  (fs(results_path output_dir retriever_name \<mapsto>
                       \<lparr>json_value = result, json_indent = 2, json_ensure_ascii = False,
                        file_encoding = ''utf-8''\<rparr>)))
      else save_each os results output_dir fs)"

definition save_results ::
  "os_env \<Rightarrow> (string \<times> result_dict) list \<Rightarrow> string \<Rightarrow> (string \<rightharpoonup> json_file)
     \<Rightarrow> (string \<rightharpoonup> json_file) \<times> exn option" where
  "save_results os results output_dir fs =
     (case os_makedirs os output_dir of
        Some e \<Rightarrow> (fs, Some e)
      | None \<Rightarrow> save_each os results output_dir fs)"

section \<open>Notions used in the statements\<close>

text \<open>What one category contributes to \<open>formatted_parts\<close>: nothing, or its header and one line for each item.\<close>

definition category_block :: "string \<times> 's item list \<Rightarrow> string list" where
  "category_block p =
     (if snd p = [] then []
      else category_header (fst p) # map (\<lambda>i. format_model (model_of i)) (snd p))"

text \<open>A result set without its scores: the categories in order, each with its records in order.\<close>

definition records_of :: "(string \<times> 's item list) list \<Rightarrow> (string \<times> model_instance list) list" where
  "records_of results = map (\<lambda>p. (fst p, map model_of (snd p))) results"

text \<open>The record of an entry, as the entry gives it.\<close>

fun record_of :: "'s item \<Rightarrow> pyobj" where
  "record_of (Scored r s) = r"
| "record_of (Bare r) = r"

text \<open>A part that starts with a line feed is a category header; record lines start with the bullet.\<close>

definition is_header :: "string \<Rightarrow> bool" where
  "is_header part = (take 1 part = [CHR 0x0A])"

text \<open>
  What the adapter hands the harness for a query: the retriever's texts, none when it raised;
  and the rows of the queries for which there are texts.
\<close>

definition retrieved_texts :: "retrieve_fn \<Rightarrow> nat \<Rightarrow> string \<Rightarrow> string list" where
  "retrieved_texts underlying top_k query =
     (case underlying query top_k of Inr docs \<Rightarrow> docs | Inl e \<Rightarrow> [])"

definition valid_rows :: "retrieve_fn \<Rightarrow> nat \<Rightarrow> string list \<Rightarrow> dataset" where
  "valid_rows underlying top_k queries =
     filter (\<lambda>row. snd row \<noteq> []) (map (\<lambda>q. (q, retrieved_texts underlying top_k q)) queries)"

text \<open>The file \<open>save_results\<close> writes for a result record.\<close>

definition written_file :: "result_dict \<Rightarrow> json_file" where
  "written_file result =
     \<lparr>json_value = result, json_indent = 2, json_ensure_ascii = False,
      file_encoding = ''utf-8''\<rparr>"

section \<open>Example data\<close>

definition full_record :: pyobj where
  "full_record = Plain
     \<lparr>title = Some ''Birthday gift'', name = Some ''Anne'',
      description = Some ''received a bicycle'', content = Some ''text'', str_repr = ''obj''\<rparr>"

definition named_record :: pyobj where
  "named_record = Plain
     \<lparr>title = None, name = Some ''Anne'', description = Some ''a friend'',
      content = Some ''text'', str_repr = ''obj''\<rparr>"

definition content_record :: pyobj where
  "content_record = Plain
     \<lparr>title = Some ''Birthday gift'', name = Some ''Anne'', description = None,
      content = Some ''text'', str_repr = ''obj''\<rparr>"

definition opaque_record :: pyobj where
  "opaque_record = Plain
     \<lparr>title = Some ''Birthday gift'', name = Some ''Anne'', description = None,
      content = None, str_repr = ''obj''\<rparr>"

text \<open>
  A record that is a named tuple \<open>Gift(title, description)\<close>. Its first component is the
  text of the title, a \<open>str\<close>, which has a method \<open>title\<close> and none of the other attributes.
\<close>

definition gift_tuple :: pyobj where
  "gift_tuple =
     TupleObj
       \<lparr>title = Some ''Birthday gift'', name = None, description = Some ''received a bicycle'',
        content = None, str_repr = ''Gift(...)''\<rparr>
       (Plain \<lparr>title = Some ''<built-in method title of str object>'', name = None,
               description = None, content = None, str_repr = ''Birthday gift''\<rparr>)
       [Plain \<lparr>title = Some ''<built-in method title of str object>'', name = None,
               description = None, content = None, str_repr = ''received a bicycle''\<rparr>]"


definition echo_mentis :: "nat mentis_chat" where
  "echo_mentis =
     \<lparr>retriever = (\<lambda>q. Inr (DictOutput None)),
      llm = (\<lambda>p. Inr ''an answer'')\<rparr>"

definition mute_mentis :: "nat mentis_chat" where
  "mute_mentis =
     \<lparr>retriever = (\<lambda>q. Inr (DictOutput None)),
      llm = (\<lambda>p. Inl (Exn OtherException ''rate limit''))\<rparr>"

text \<open>A retriever that raises on the first query, finds nothing for the second, and one that always raises.\<close>

definition flaky_retriever :: retrieve_fn where
  "flaky_retriever query limit =
     (if query = ''q1'' then Inl (Exn OtherException ''Retrieval failed'')
      else if query = ''q2'' then Inr []
      else Inr (take limit [''chunk1'', ''chunk2'']))"

definition dead_retriever :: retrieve_fn where
  "dead_retriever query limit = Inl (Exn OtherException ''Retrieval failed'')"

text \<open>The adapters of an evaluation run, by name.\<close>

definition two_adapters :: "(string \<times> retrieve_fn) list" where
  "two_adapters =
     [(''simple_rag'', adapter_retrieve flaky_retriever),
      (''summary_rag'', adapter_retrieve dead_retriever)]"

text \<open>
  A result of the metrics library that prints its score under another name and has no entry
  \<open>nv_context_relevance\<close>.
\<close>

definition renamed_results :: ragas_results where
  "renamed_results =
     \<lparr>results_str = Inr (''{'' @ [CHR 0x27] @ ''context_relevance'' @ [CHR 0x27] @ '': 0.8000}''),
      results_has_getitem = Inr True,
      results_score = Inl (Exn KeyError ([CHR 0x27] @ ''nv_context_relevance'' @ [CHR 0x27]))\<rparr>"

definition env0 :: "string \<rightharpoonup> string" where
  "env0 = [''USER_ID'' \<mapsto> ''anne'', ''OPENAI_API_KEY'' \<mapsto> ''sk-test'']"

text \<open>The record the harness builds from it for one valid query.\<close>

definition renamed_record :: result_dict where
  "renamed_record =
     [(''retriever'', JStr ''simple_rag''), (''num_queries'', JInt 1),
      (''raw_results'',
         JStr (''{'' @ [CHR 0x27] @ ''context_relevance'' @ [CHR 0x27] @ '': 0.8000}''))]"

text \<open>An operating system that creates every directory and opens every file.\<close>

definition willing_os :: os_env where
  "willing_os = \<lparr>makedirs_error = (\<lambda>path. None), open_error = (\<lambda>path. None)\<rparr>"

text \<open>A file of an earlier run.\<close>

definition old_file :: json_file where
  "old_file = written_file [(''retriever'', JStr ''summary_rag''), (''num_queries'', JInt 3)]"

section \<open>Properties of the formatter\<close>

lemma format_items_append:
  "format_items items acc = acc @ map (\<lambda>i. format_model (model_of i)) items"
  by (induction items arbitrary: acc) simp_all

lemma format_categories_blocks:
  "format_categories results acc = acc @ concat (map category_block results)"
  by (induction results arbitrary: acc)
     (auto simp: category_block_def format_items_append)

lemma format_main_results_blocks:
  "format_main_results results =
     (if concat (map category_block results) = [] then no_info
      else join [CHR 0x0A] (concat (map category_block results)))"
  by (auto simp: format_main_results_def format_categories_blocks Let_def)

text \<open>
  Claim C1. The text the formatter returns for a result set is, unless no category has an
  item, the parts joined by line feeds, where every category with items contributes its
  header and then one part for each item, the rendering of the item's record. The rendering
  is chosen in a fixed order: a record with a title and a description gives the bullet, the
  title, a colon and the description; otherwise one with a name and a description gives the
  bullet, the name, a colon and the description; otherwise one with a content gives the
  bullet and the content; otherwise the bullet and \<open>str\<close> of the record. A record that has
  title, name and description is rendered by its title. (Every line of the source starts
  with the bullet.)
\<close>

theorem format_priority:
  "format_main_results results =
     (if concat (map (\<lambda>p. if snd p = [] then []
                           else category_header (fst p)
                                  # map (\<lambda>i. format_model (model_of i)) (snd p)) results) = []
      then ''No relevant information found.''
      else join [CHR 0x0A]
             (concat (map (\<lambda>p. if snd p = [] then []
                                else category_header (fst p)
                                       # map (\<lambda>i. format_model (model_of i)) (snd p)) results)))
   \<and> format_items [item] parts = parts @ [format_model (model_of item)]
   \<and> (title (model_of item) = Some t \<and> description (model_of item) = Some d
        \<longrightarrow> format_model (model_of item) = bullet @ t @ '': '' @ d)
   \<and> (title (model_of item) = None \<and> name (model_of item) = Some n
        \<and> description (model_of item) = Some d
        \<longrightarrow> format_model (model_of item) = bullet @ n @ '': '' @ d)
   \<and> ((description (model_of item) = None
          \<or> (title (model_of item) = None \<and> name (model_of item) = None))
        \<and> content (model_of item) = Some c
        \<longrightarrow> format_model (model_of item) = bullet @ c)
   \<and> ((description (model_of item) = None
          \<or> (title (model_of item) = None \<and> name (model_of item) = None))
        \<and> content (model_of item) = None
        \<longrightarrow> format_model (model_of item) = bullet @ str_repr (model_of item))
   \<and> (title (model_of item) = Some t \<and> name (model_of item) = Some n
        \<and> description (model_of item) = Some d
        \<longrightarrow> format_model (model_of item) = bullet @ t @ '': '' @ d)"
proof -
  have blk: "category_block = (\<lambda>p. if snd p = [] then []
                           else category_header (fst p)
                                  # map (\<lambda>i. format_model (model_of i)) (snd p))"
    by (rule ext) (simp add: category_block_def)
  have "format_main_results results =
     (if concat (map (\<lambda>p. if snd p = [] then []
                           else category_header (fst p)
                                  # map (\<lambda>i. format_model (model_of i)) (snd p)) results) = []
      then ''No relevant information found.''
      else join [CHR 0x0A]
             (concat (map (\<lambda>p. if snd p = [] then []
                                else category_header (fst p)
                                       # map (\<lambda>i. format_model (model_of i)) (snd p)) results)))"
    using format_main_results_blocks [of results] unfolding blk no_info_def .
  moreover have "format_items [item] parts = parts @ [format_model (model_of item)]"
    by simp
  ultimately show ?thesis
    by (auto simp: format_model_def)
qed

theorem format_priority_witness:
  "format_main_results
      [(''Event'', [Scored full_record (1::nat), Bare named_record]),
       (''Emotion'', []),
       (''Thought'', [Bare content_record, Bare opaque_record])]
     = category_header ''Event'' @ [CHR 0x0A] @ bullet @ ''Birthday gift: received a bicycle''
         @ [CHR 0x0A] @ bullet @ ''Anne: a friend'' @ [CHR 0x0A]
         @ category_header ''Thought'' @ [CHR 0x0A] @ bullet @ ''text''
         @ [CHR 0x0A] @ bullet @ ''obj''
   \<and> format_items [Scored full_record (1::nat)] [] = [bullet @ ''Birthday gift: received a bicycle'']
   \<and> format_items [Bare named_record :: nat item] [] = [bullet @ ''Anne: a friend'']
   \<and> format_items [Bare content_record :: nat item] [] = [bullet @ ''text'']
   \<and> format_items [Bare opaque_record :: nat item] [] = [bullet @ ''obj'']"
  using format_priority [of "[(''Event'', [Scored full_record (1::nat), Bare named_record]),
       (''Emotion'', []),
       (''Thought'', [Bare content_record, Bare opaque_record])]"
      "Scored full_record (1::nat)" "[]" "''Birthday gift''"
      "''received a bicycle''" "''Anne''" "''text''"]
    format_priority [of "[]" "Bare named_record :: nat item" "[]" "''x''" "''a friend''" "''Anne''"
      "''text''"]
    format_priority [of "[]" "Bare content_record :: nat item" "[]" "''x''" "''y''" "''Anne''"
      "''text''"]
    format_priority [of "[]" "Bare opaque_record :: nat item" "[]" "''x''" "''y''" "''Anne''"
      "''text''"]
  by (simp add: full_record_def named_record_def content_record_def opaque_record_def
        format_model_def)

text \<open>
  Claim C2. For the empty result set the formatter returns the fixed text
  "No relevant information found.", which is not the empty text.
\<close>

theorem format_empty_result_set:
  "format_main_results [] = ''No relevant information found.''
   \<and> format_main_results [] \<noteq> []"
  by (simp add: format_main_results_def no_info_def)

lemma records_of_Nil_iff: "records_of r = [] \<longleftrightarrow> r = []"
  by (simp add: records_of_def)

lemma category_block_records:
  "category_block p =
     (if map model_of (snd p) = [] then []
      else category_header (fst p) # map format_model (map model_of (snd p)))"
  by (simp add: category_block_def)

lemma blocks_records:
  "records_of r1 = records_of r2 \<Longrightarrow>
     concat (map category_block r1) = concat (map category_block r2)"
proof (induction r1 arbitrary: r2)
  case Nil
  then show ?case by (simp add: records_of_def)
next
  case (Cons p r1)
  then obtain q r2' where r2: "r2 = q # r2'"
    by (cases r2) (auto simp: records_of_def)
  with Cons.prems have hd: "fst p = fst q" "map model_of (snd p) = map model_of (snd q)"
    and tl: "records_of r1 = records_of r2'"
    by (auto simp: records_of_def)
  from hd have "category_block p = category_block q"
    by (simp add: category_block_records)
  with Cons.IH [OF tl] r2 show ?case by simp
qed

lemma format_main_results_records:
  fixes x :: "(string \<times> 'a item list) list" and y :: "(string \<times> 'b item list) list"
  assumes "records_of x = records_of y"
  shows "format_main_results x = format_main_results y"
proof -
  have "(x = []) = (y = [])"
    using assms records_of_Nil_iff [of x] records_of_Nil_iff [of y] by simp
  moreover have "format_categories x [] = format_categories y []"
    using blocks_records [OF assms] by (simp add: format_categories_blocks)
  ultimately show ?thesis by (simp add: format_main_results_def)
qed

lemma model_of_map_item: "model_of (map_item f i) = model_of i"
  by (cases i rule: model_of.cases) simp_all

lemma model_of_Bare_plain: "\<not> is_tuple r \<Longrightarrow> model_of (Bare r) = attrs_of r"
  by (cases r) simp_all

lemma model_of_Bare_Scored:
  "\<not> is_tuple r \<Longrightarrow> model_of (Bare r) = model_of (Scored r s)"
  by (simp add: model_of_Bare_plain)

lemma model_of_Bare_record_of:
  "\<not> is_tuple (record_of i) \<Longrightarrow> model_of (Bare (record_of i)) = model_of i"
  by (cases i) (simp_all add: model_of_Bare_plain)

text \<open>
  Claim C9, amended. The formatted text depends on the categories, their order and the
  records only: two result sets whose entries give the same records in the same categories,
  whatever their scores (and whatever the type of the scores), give the same text, and so
  does a result set after any change of its scores. An entry whose record is not itself a
  tuple gives the same text as the pair of record and score and as the record on its own.
\<close>

theorem format_ignores_scores:
  fixes r1 :: "(string \<times> 's item list) list" and r2 :: "(string \<times> 't item list) list"
    and f :: "'s \<Rightarrow> 'u"
  shows "(records_of r1 = records_of r2 \<longrightarrow> format_main_results r1 = format_main_results r2)
     \<and> format_main_results (map (\<lambda>p. (fst p, map (map_item f) (snd p))) r1)
         = format_main_results r1
     \<and> (\<not> is_tuple r
          \<longrightarrow> format_main_results ((category, Bare r # items) # r1)
                = format_main_results ((category, Scored r s # items) # r1))
     \<and> ((\<forall>p \<in> set r1. \<forall>i \<in> set (snd p). \<not> is_tuple (record_of i))
          \<longrightarrow> format_main_results
                  (map (\<lambda>p. (fst p, map (\<lambda>i. Bare (record_of i) :: 's item) (snd p))) r1)
                = format_main_results r1)"
proof -
  have "records_of (map (\<lambda>p. (fst p, map (map_item f) (snd p))) r1) = records_of r1"
    by (simp add: records_of_def comp_def model_of_map_item)
  then have a: "format_main_results (map (\<lambda>p. (fst p, map (map_item f) (snd p))) r1)
         = format_main_results r1"
    by (rule format_main_results_records)
  have b: "format_main_results ((category, Bare r # items) # r1)
                = format_main_results ((category, Scored r s # items) # r1)"
    if "\<not> is_tuple r"
  proof -
    have "records_of ((category, Bare r # items) # r1)
            = records_of ((category, Scored r s # items) # r1)"
      using model_of_Bare_Scored [OF that, of s] by (simp add: records_of_def)
    then show ?thesis by (rule format_main_results_records)
  qed
  have c: "format_main_results
                  (map (\<lambda>p. (fst p, map (\<lambda>i. Bare (record_of i) :: 's item) (snd p))) r1)
                = format_main_results r1"
    if "\<forall>p \<in> set r1. \<forall>i \<in> set (snd p). \<not> is_tuple (record_of i)"
  proof -
    have "records_of (map (\<lambda>p. (fst p, map (\<lambda>i. Bare (record_of i) :: 's item) (snd p))) r1)
            = records_of r1"
      using that by (simp add: records_of_def comp_def model_of_Bare_record_of)
    then show ?thesis by (rule format_main_results_records)
  qed
  from a b c format_main_results_records [of r1 r2] show ?thesis by blast
qed

theorem format_ignores_scores_witness:
  "format_main_results [(''Event'', [Scored full_record (1::nat), Scored named_record 7])]
     = format_main_results [(''Event'', [Scored full_record (99::int), Scored named_record 0])]
   \<and> format_main_results [(''Event'', [Bare full_record, Scored named_record (7::nat)])]
     = format_main_results [(''Event'', [Scored full_record (1::nat), Scored named_record 7])]
   \<and> format_main_results [(''Event'', [Bare full_record, Bare named_record :: nat item])]
     = format_main_results [(''Event'', [Scored full_record (1::nat), Scored named_record 7])]"
  using format_ignores_scores
    [of "[(''Event'', [Scored full_record (1::nat), Scored named_record 7])]"
        "[(''Event'', [Scored full_record (99::int), Scored named_record 0])]"
        "\<lambda>s. s" full_record "''Event''" "[Scored named_record (7::nat)]" 1]
    format_ignores_scores
    [of "[]" "[] :: (string \<times> nat item list) list" "\<lambda>s::nat. s"
        full_record "''Event''" "[Scored named_record (7::nat)]" 1]
  by (simp add: records_of_def full_record_def named_record_def)

text \<open>
  The claim as written fails for a record that is itself a tuple: in a pair it is rendered
  by its title and description, on its own line 41 takes its first component, the text of
  the title, which is rendered by \<open>str\<close>.
\<close>

theorem format_bare_tuple_counterexample:
  "format_main_results [(''Event'', [Scored gift_tuple (1::nat)])]
     = category_header ''Event'' @ [CHR 0x0A] @ bullet @ ''Birthday gift: received a bicycle''
   \<and> format_main_results [(''Event'', [Bare gift_tuple :: nat item])]
     = category_header ''Event'' @ [CHR 0x0A] @ bullet @ ''Birthday gift''
   \<and> format_main_results [(''Event'', [Bare gift_tuple :: nat item])]
     \<noteq> format_main_results [(''Event'', [Scored gift_tuple (1::nat)])]"
  by (simp add: format_main_results_def gift_tuple_def format_model_def category_header_def
        bullet_def)

lemma is_header_category_header: "is_header (category_header c)"
  by (simp add: is_header_def category_header_def)

lemma not_is_header_format_model: "\<not> is_header (format_model m)"
  by (simp add: is_header_def format_model_def bullet_def)

lemma headers_of_block:
  "filter is_header (category_block p) = (if snd p = [] then [] else [category_header (fst p)])"
  by (simp add: category_block_def is_header_category_header not_is_header_format_model)

lemma headers_of_blocks:
  "filter is_header (concat (map category_block results))
     = map (\<lambda>p. category_header (fst p)) (filter (\<lambda>p. snd p \<noteq> []) results)"
  by (induction results) (simp_all add: headers_of_block)

lemma blocks_all_empty:
  "\<forall>p \<in> set results. snd p = [] \<Longrightarrow> concat (map category_block results) = []"
  by (induction results) (simp_all add: category_block_def)

text \<open>
  Claim C10. For a non-empty result set in which every category has an empty list the
  formatter produces no part at all, neither header nor record line, and returns the text
  "No relevant information found.". For every result set the headers among the parts are
  those of the categories with a non-empty list, in order.
\<close>

theorem format_all_categories_empty:
  "(results \<noteq> [] \<and> (\<forall>p \<in> set results. snd p = [])
      \<longrightarrow> format_categories results [] = []
          \<and> format_main_results results = ''No relevant information found.'')
   \<and> filter is_header (format_categories results [])
       = map (\<lambda>p. category_header (fst p)) (filter (\<lambda>p. snd p \<noteq> []) results)"
  by (auto simp: format_categories_blocks headers_of_blocks blocks_all_empty
        format_main_results_def no_info_def)

theorem format_all_categories_empty_witness:
  "format_categories [(''Event'', []), (''Person'', [] :: nat item list)] [] = []
   \<and> format_main_results [(''Event'', []), (''Person'', [] :: nat item list)]
       = ''No relevant information found.''
   \<and> filter is_header
        (format_categories [(''Event'', []), (''Person'', [Bare named_record :: nat item])] [])
       = [category_header ''Person'']"
  using format_all_categories_empty [of "[(''Event'', []), (''Person'', [] :: nat item list)]"]
    format_all_categories_empty
      [of "[(''Event'', []), (''Person'', [Bare named_record :: nat item])]"]
  by simp

section \<open>Properties of the chat session and the loop\<close>

text \<open>
  Claim C5. When the call of the language model raises, \<open>_generate_answer\<close> returns the text
  "Error generating response: " followed by the message of the exception; and \<open>chat\<close>, whose
  retrieval has returned, returns that text as its answer instead of raising.
\<close>

theorem generation_error_inline:
  "(llm self (answer_prompt mentisPrompt user_query context) = Inl e
      \<longrightarrow> generate_answer mentisPrompt self user_query context
            = ''Error generating response: '' @ exn_str e)
   \<and> (retriever self user_query = Inr output
        \<and> llm self (answer_prompt mentisPrompt user_query
                       (format_main_results (main_results_of output))) = Inl e
      \<longrightarrow> chat mentisPrompt self user_query
            = Inr (''Error generating response: '' @ exn_str e))"
  by (simp add: generate_answer_def chat_def)

theorem generation_error_inline_witness:
  "generate_answer ''P'' mute_mentis ''hello'' ''ctx'' = ''Error generating response: rate limit''
   \<and> chat ''P'' mute_mentis ''hello'' = Inr ''Error generating response: rate limit''"
  using generation_error_inline [of mute_mentis "''P''" "''hello''" "''ctx''"
      "Exn OtherException ''rate limit''" "DictOutput None"]
  by (simp add: mute_mentis_def)

lemma submitted_print [simp]: "submitted (print s st) = submitted st"
  by (simp add: print_def)

lemma submitted_prompted [simp]: "submitted (prompted st) = submitted st"
  by (simp add: prompted_def)






section \<open>Properties of the evaluation harness\<close>

lemma adapter_retrieve_texts:
  "adapter_retrieve underlying q k = Inr (retrieved_texts underlying k q)"
  by (simp add: adapter_retrieve_def retrieved_texts_def split: sum.splits)

lemma collect_eval_data_total:
  assumes "\<And>q. retrieve q top_k = Inr (texts q)"
  shows "collect_eval_data retrieve top_k queries ed =
     Inr (ed\<lparr>user_input := user_input ed
                @ map fst (filter (\<lambda>row. snd row \<noteq> []) (map (\<lambda>q. (q, texts q)) queries)),
             retrieved_contexts := retrieved_contexts ed
                @ map snd (filter (\<lambda>row. snd row \<noteq> []) (map (\<lambda>q. (q, texts q)) queries))\<rparr>)"
proof (induction queries arbitrary: ed)
  case Nil
  then show ?case by simp
next
  case (Cons q queries)
  show ?case
    by (simp add: assms Cons.IH)
qed

lemma collect_eval_data_adapter:
  "collect_eval_data (adapter_retrieve underlying) top_k queries ed =
     Inr (ed\<lparr>user_input := user_input ed @ map fst (valid_rows underlying top_k queries),
             retrieved_contexts :=
               retrieved_contexts ed @ map snd (valid_rows underlying top_k queries)\<rparr>)"
  unfolding valid_rows_def
  by (rule collect_eval_data_total) (rule adapter_retrieve_texts)

lemma create_ragas_dataset_adapter:
  "create_ragas_dataset (adapter_retrieve underlying) queries top_k
     = Inr (valid_rows underlying top_k queries)"
  by (simp add: create_ragas_dataset_def collect_eval_data_adapter zip_map_fst_snd)

text \<open>
  Claim C3. With the adapter's \<open>retrieve\<close>, building the dataset never fails: a query for
  which the retriever raises or returns no texts is left out, and every other query
  contributes, in order, the row of the query and its texts. Every row has at least one text.
  When no row is left, \<open>evaluate_retriever\<close> returns the record with the error
  "No valid data" and does not call the metrics library; otherwise the library is called
  once, on these rows.
\<close>

theorem failed_queries_skipped:
  "create_ragas_dataset (adapter_retrieve underlying) queries top_k
     = Inr (filter (\<lambda>row. snd row \<noteq> [])
         (map (\<lambda>q. (q, case underlying q top_k of Inr docs \<Rightarrow> docs | Inl e \<Rightarrow> [])) queries))
   \<and> (\<forall>row \<in> set (valid_rows underlying top_k queries). snd row \<noteq> [] \<and> fst row \<in> set queries)
   \<and> (valid_rows underlying 5 queries = []
        \<longrightarrow> evaluate_retriever metrics evaluate retriever_name
               (adapter_retrieve underlying) queries
             = (error_result ''No valid data'', []))
   \<and> (valid_rows underlying 5 queries \<noteq> []
        \<longrightarrow> snd (evaluate_retriever metrics evaluate retriever_name
               (adapter_retrieve underlying) queries)
             = [valid_rows underlying 5 queries])"
proof -
  have "create_ragas_dataset (adapter_retrieve underlying) queries top_k
     = Inr (filter (\<lambda>row. snd row \<noteq> [])
         (map (\<lambda>q. (q, case underlying q top_k of Inr docs \<Rightarrow> docs | Inl e \<Rightarrow> [])) queries))"
    by (simp add: create_ragas_dataset_adapter valid_rows_def retrieved_texts_def)
  moreover have "\<forall>row \<in> set (valid_rows underlying top_k queries).
      snd row \<noteq> [] \<and> fst row \<in> set queries"
    by (auto simp: valid_rows_def)
  moreover have "valid_rows underlying 5 queries = []
        \<longrightarrow> evaluate_retriever metrics evaluate retriever_name
               (adapter_retrieve underlying) queries
             = (error_result ''No valid data'', [])"
    by (simp add: evaluate_retriever_def create_ragas_dataset_adapter)
  moreover have "valid_rows underlying 5 queries \<noteq> []
        \<longrightarrow> snd (evaluate_retriever metrics evaluate retriever_name
               (adapter_retrieve underlying) queries)
             = [valid_rows underlying 5 queries]"
    by (simp add: evaluate_retriever_def create_ragas_dataset_adapter split: sum.splits)
  ultimately show ?thesis by blast
qed

lemma vr1: "valid_rows flaky_retriever 5 [''q1'', ''q2'', ''q3''] = [(''q3'', [''chunk1'', ''chunk2''])]"
  by (simp add: valid_rows_def retrieved_texts_def flaky_retriever_def)

lemma vr2: "valid_rows dead_retriever 5 [''q1'', ''q2'', ''q3''] = []"
  by (simp add: valid_rows_def retrieved_texts_def dead_retriever_def)

theorem failed_queries_skipped_witness:
  "create_ragas_dataset (adapter_retrieve flaky_retriever) [''q1'', ''q2'', ''q3''] 5
     = Inr [(''q3'', [''chunk1'', ''chunk2''])]
   \<and> snd (evaluate_retriever [score_key] (\<lambda>d m. Inl (Exn OtherException ''no key''))
        ''simple_rag'' (adapter_retrieve flaky_retriever) [''q1'', ''q2'', ''q3''])
     = [[(''q3'', [''chunk1'', ''chunk2''])]]
   \<and> evaluate_retriever [score_key] (\<lambda>d m. Inl (Exn OtherException ''no key''))
        ''simple_rag'' (adapter_retrieve dead_retriever) [''q1'', ''q2'', ''q3'']
     = ([(''error'', JStr ''No valid data'')], [])"
  using failed_queries_skipped [of flaky_retriever "[''q1'', ''q2'', ''q3'']" 5 "[score_key]"
      "\<lambda>d m. Inl (Exn OtherException ''no key'')" "''simple_rag''"]
    failed_queries_skipped [of dead_retriever "[''q1'', ''q2'', ''q3'']" 5 "[score_key]"
      "\<lambda>d m. Inl (Exn OtherException ''no key'')" "''simple_rag''"]
  by (simp add: vr1 vr2 error_result_def) (simp add: flaky_retriever_def)

lemma contains_renamed:
  "\<not> contains score_key (''{'' @ [CHR 0x27] @ ''context_relevance'' @ [CHR 0x27] @ '': 0.8000}'')"
  by (simp add: score_key_def)

text \<open>
  Claim C4, at an input where it fails. The metrics library returns a result that prints
  without the key \<open>nv_context_relevance\<close> and raises \<open>KeyError\<close> on the direct access. The
  harness returns a record with the retriever's name, the number of queries and the printed
  result, and with no entry for the metric: the handler that sets every metric to \<open>0.0\<close> is
  not reached, since the \<open>KeyError\<close> is passed over inside the inner \<open>try\<close>.
\<close>

theorem score_extraction_failure_no_default:
  "evaluate_retriever [score_key] (\<lambda>d m. Inr renamed_results) ''simple_rag''
      (adapter_retrieve flaky_retriever) [''q1'', ''q2'', ''q3'']
     = ([(''retriever'', JStr ''simple_rag''), (''num_queries'', JInt 1),
         (''raw_results'',
            JStr (''{'' @ [CHR 0x27] @ ''context_relevance'' @ [CHR 0x27] @ '': 0.8000}''))],
        [[(''q3'', [''chunk1'', ''chunk2''])]])
   \<and> \<not> has_key score_key
         (fst (evaluate_retriever [score_key] (\<lambda>d m. Inr renamed_results) ''simple_rag''
            (adapter_retrieve flaky_retriever) [''q1'', ''q2'', ''q3'']))"
  using contains_renamed
  by (simp add: evaluate_retriever_def create_ragas_dataset_adapter vr1 build_result_def
        renamed_results_def extract_scores_def base_record_def has_key_def)
     (simp add: score_key_def)

lemma results_path_inj: "results_path dir a = results_path dir b \<Longrightarrow> a = b"
  by (auto simp: results_path_def os_path_join_def split: if_splits)

lemma save_each_other:
  "path \<notin> results_path dir ` fst ` set results \<Longrightarrow> fst (save_each os results dir fs) path = fs path"
  by (induction results arbitrary: fs) (auto split: option.splits)

lemma save_each_no_error:
  "\<forall>p \<in> set results. open_error os (results_path dir (fst p)) = None \<Longrightarrow>
     snd (save_each os results dir fs) = None"
  by (induction results arbitrary: fs) auto

lemma save_each_at:
  "\<forall>p \<in> set results. open_error os (results_path dir (fst p)) = None \<Longrightarrow>
   distinct (map fst results) \<Longrightarrow> (n, r) \<in> set results \<Longrightarrow>
     fst (save_each os results dir fs) (results_path dir n)
       = (if has_key ''error'' r then fs (results_path dir n) else Some (written_file r))"
proof (induction results arbitrary: fs)
  case Nil
  then show ?case by simp
next
  case (Cons p results)
  obtain n' r' where p: "p = (n', r')" by (cases p)
  from Cons.prems(1) p have op: "open_error os (results_path dir n') = None"
    and rest: "\<forall>p \<in> set results. open_error os (results_path dir (fst p)) = None"
    by auto
  show ?case
  proof (cases "(n, r) = p")
    case True
    with Cons.prems p have "n \<notin> fst ` set results" by auto
    then have "results_path dir n \<notin> results_path dir ` fst ` set results"
      by (auto dest: results_path_inj)
    from save_each_other [OF this] True p op show ?thesis
      by (simp add: written_file_def)
  next
    case False
    with Cons.prems p have in_rest: "(n, r) \<in> set results" and d: "distinct (map fst results)"
      and "n' \<noteq> n"
      by (auto simp: rev_image_eqI)
    then have "results_path dir n' \<noteq> results_path dir n"
      by (auto dest: results_path_inj)
    with Cons.IH [OF rest d in_rest] p op show ?thesis by simp
  qed
qed

lemma map_of_dict_set:
  "map_of (dict_set d k v) k' = (if k' = k then Some v else map_of d k')"
  by (induction d) auto

lemma map_of_defaults:
  "k \<notin> set metrics \<Longrightarrow>
     map_of (foldl (\<lambda>d metric. dict_set d metric (JFloat 0)) d metrics) k = map_of d k"
  by (induction metrics arbitrary: d) (auto simp: map_of_dict_set)

lemma extract_scores_keeps:
  "k \<noteq> score_key \<Longrightarrow> map_of (extract_scores results raw d) k = map_of d k"
  by (auto simp: extract_scores_def map_of_dict_set split: sum.splits option.splits)

lemma build_result_fields:
  "build_result n k results = Inr r \<Longrightarrow>
     \<exists>raw. results_str results = Inr raw
        \<and> map_of r ''retriever'' = Some (JStr n)
        \<and> map_of r ''num_queries'' = Some (JInt (int k))
        \<and> map_of r ''raw_results'' = Some (JStr raw)"
  by (auto simp: build_result_def base_record_def extract_scores_keeps score_key_def
        split: sum.splits bool.splits)

lemma default_result_fields:
  "default_result metrics n k results = Inr r \<Longrightarrow>
     ''retriever'' \<notin> set metrics \<Longrightarrow> ''num_queries'' \<notin> set metrics \<Longrightarrow>
     ''raw_results'' \<notin> set metrics \<Longrightarrow>
     \<exists>raw. results_str results = Inr raw
        \<and> map_of r ''retriever'' = Some (JStr n)
        \<and> map_of r ''num_queries'' = Some (JInt (int k))
        \<and> map_of r ''raw_results'' = Some (JStr raw)"
  by (auto simp: default_result_def base_record_def map_of_defaults split: sum.splits)

lemma has_key_error_result: "has_key ''error'' (error_result msg)"
  by (simp add: has_key_def error_result_def)

lemma evaluate_retriever_cases:
  "has_key ''error'' (fst (evaluate_retriever metrics evaluate n retrieve queries))
   \<or> (\<exists>dataset results.
         create_ragas_dataset retrieve queries 5 = Inr dataset
       \<and> evaluate dataset metrics = Inr results
       \<and> (build_result n (length dataset) results
             = Inr (fst (evaluate_retriever metrics evaluate n retrieve queries))
          \<or> default_result metrics n (length dataset) results
             = Inr (fst (evaluate_retriever metrics evaluate n retrieve queries))))"
  by (simp add: evaluate_retriever_def has_key_error_result split: sum.splits)

lemma evaluate_retriever_fields:
  assumes "\<not> has_key ''error'' (fst (evaluate_retriever metrics evaluate n retrieve queries))"
    and "''retriever'' \<notin> set metrics" and "''num_queries'' \<notin> set metrics"
    and "''raw_results'' \<notin> set metrics"
  shows "\<exists>dataset results raw.
      create_ragas_dataset retrieve queries 5 = Inr dataset
    \<and> evaluate dataset metrics = Inr results
    \<and> results_str results = Inr raw
    \<and> map_of (fst (evaluate_retriever metrics evaluate n retrieve queries)) ''retriever''
         = Some (JStr n)
    \<and> map_of (fst (evaluate_retriever metrics evaluate n retrieve queries)) ''num_queries''
         = Some (JInt (int (length dataset)))
    \<and> map_of (fst (evaluate_retriever metrics evaluate n retrieve queries)) ''raw_results''
         = Some (JStr raw)"
proof -
  let ?r = "fst (evaluate_retriever metrics evaluate n retrieve queries)"
  from evaluate_retriever_cases [of metrics evaluate n retrieve queries] assms(1)
  obtain dataset results where ds: "create_ragas_dataset retrieve queries 5 = Inr dataset"
    and ev: "evaluate dataset metrics = Inr results"
    and r: "build_result n (length dataset) results = Inr ?r
          \<or> default_result metrics n (length dataset) results = Inr ?r"
    by blast
  from r have "\<exists>raw. results_str results = Inr raw
        \<and> map_of ?r ''retriever'' = Some (JStr n)
        \<and> map_of ?r ''num_queries'' = Some (JInt (int (length dataset)))
        \<and> map_of ?r ''raw_results'' = Some (JStr raw)"
  proof
    assume "build_result n (length dataset) results = Inr ?r"
    then show ?thesis by (rule build_result_fields)
  next
    assume "default_result metrics n (length dataset) results = Inr ?r"
    then show ?thesis using assms(2,3,4) by (rule default_result_fields)
  qed
  with ds ev show ?thesis by blast
qed

lemma run_evaluation_names:
  "map fst (run_evaluation metrics evaluate adapters queries) = map fst adapters"
  by (induction adapters) auto

lemma run_evaluation_member:
  "(n, adapter) \<in> set adapters \<Longrightarrow>
     (n, fst (evaluate_retriever metrics evaluate n adapter queries))
       \<in> set (run_evaluation metrics evaluate adapters queries)"
  by (induction metrics evaluate adapters queries rule: run_evaluation.induct) auto

text \<open>
  Claim C8, amended. Let the adapters have distinct names, and let the output directory be
  created and the result files be opened without an error. Then \<open>save_results\<close> after
  \<open>run_evaluation\<close> raises nothing, and for every retriever whose result record has no entry
  \<open>error\<close> it leaves at the path \<open>results_<name>.json\<close> under the output directory the file
  that holds the whole record, written with indent 2, \<open>ensure_ascii\<close> off and encoding
  UTF-8, whatever was at that path before; for a retriever whose record has an entry
  \<open>error\<close> the path is left as it was. No other path changes, and different names have
  different paths. Such a record holds the retriever's name, the number of rows of the
  dataset that was evaluated and the printed result of the metrics library (no metric being
  named \<open>retriever\<close>, \<open>num_queries\<close> or \<open>raw_results\<close>). When the directory cannot be
  created, nothing is written and the exception is raised.
\<close>

theorem saved_result_files:
  "(os_makedirs os dir = Some e
      \<longrightarrow> save_results os (run_evaluation metrics evaluate adapters queries) dir fs = (fs, Some e))
   \<and> (os_makedirs os dir = None
        \<and> (\<forall>p \<in> set adapters. open_error os (results_path dir (fst p)) = None)
      \<longrightarrow> snd (save_results os (run_evaluation metrics evaluate adapters queries) dir fs) = None)
   \<and> (os_makedirs os dir = None
        \<and> (\<forall>p \<in> set adapters. open_error os (results_path dir (fst p)) = None)
        \<and> distinct (map fst adapters) \<and> (n, adapter) \<in> set adapters
      \<longrightarrow> fst (save_results os (run_evaluation metrics evaluate adapters queries) dir fs)
              (results_path dir n)
            = (if has_key ''error'' (fst (evaluate_retriever metrics evaluate n adapter queries))
               then fs (results_path dir n)
               else Some \<lparr>json_value = fst (evaluate_retriever metrics evaluate n adapter queries),
                          json_indent = 2, json_ensure_ascii = False,
                          file_encoding = ''utf-8''\<rparr>))
   \<and> (path \<notin> results_path dir ` fst ` set adapters
      \<longrightarrow> fst (save_results os (run_evaluation metrics evaluate adapters queries) dir fs) path
            = fs path)
   \<and> (results_path dir a = results_path dir b \<longrightarrow> a = b)
   \<and> (\<not> has_key ''error'' (fst (evaluate_retriever metrics evaluate n adapter queries))
        \<and> ''retriever'' \<notin> set metrics \<and> ''num_queries'' \<notin> set metrics
        \<and> ''raw_results'' \<notin> set metrics
      \<longrightarrow> (\<exists>dataset results raw.
              create_ragas_dataset adapter queries 5 = Inr dataset
            \<and> evaluate dataset metrics = Inr results
            \<and> results_str results = Inr raw
            \<and> map_of (fst (evaluate_retriever metrics evaluate n adapter queries)) ''retriever''
                 = Some (JStr n)
            \<and> map_of (fst (evaluate_retriever metrics evaluate n adapter queries)) ''num_queries''
                 = Some (JInt (int (length dataset)))
            \<and> map_of (fst (evaluate_retriever metrics evaluate n adapter queries)) ''raw_results''
                 = Some (JStr raw)))"
proof -
  let ?R = "run_evaluation metrics evaluate adapters queries"
  let ?r = "fst (evaluate_retriever metrics evaluate n adapter queries)"
  have "set (map fst ?R) = set (map fst adapters)"
    by (simp only: run_evaluation_names)
  then have names: "fst ` set ?R = fst ` set adapters"
    by (simp only: set_map)
  have c1: "os_makedirs os dir = Some e \<longrightarrow> save_results os ?R dir fs = (fs, Some e)"
    by (simp add: save_results_def)
  have opens: "\<forall>p \<in> set ?R. open_error os (results_path dir (fst p)) = None"
    if op: "\<forall>p \<in> set adapters. open_error os (results_path dir (fst p)) = None"
  proof
    fix p assume "p \<in> set ?R"
    then have "fst p \<in> fst ` set adapters" using names by blast
    then obtain q where "q \<in> set adapters" "fst q = fst p" by force
    with op show "open_error os (results_path dir (fst p)) = None" by force
  qed
  have c2: "os_makedirs os dir = None
        \<and> (\<forall>p \<in> set adapters. open_error os (results_path dir (fst p)) = None)
      \<longrightarrow> snd (save_results os ?R dir fs) = None"
    using opens save_each_no_error [of ?R os dir fs] by (simp add: save_results_def)
  have c3: "os_makedirs os dir = None
        \<and> (\<forall>p \<in> set adapters. open_error os (results_path dir (fst p)) = None)
        \<and> distinct (map fst adapters) \<and> (n, adapter) \<in> set adapters
      \<longrightarrow> fst (save_results os ?R dir fs) (results_path dir n)
            = (if has_key ''error'' ?r then fs (results_path dir n)
               else Some \<lparr>json_value = ?r, json_indent = 2, json_ensure_ascii = False,
                          file_encoding = ''utf-8''\<rparr>)"
  proof (intro impI, elim conjE)
    assume mk: "os_makedirs os dir = None"
      and op: "\<forall>p \<in> set adapters. open_error os (results_path dir (fst p)) = None"
      and d: "distinct (map fst adapters)" and m: "(n, adapter) \<in> set adapters"
    have d': "distinct (map fst ?R)" using d by (simp add: run_evaluation_names)
    from save_each_at [OF opens [OF op] d' run_evaluation_member [OF m], of fs] mk
    show "fst (save_results os ?R dir fs) (results_path dir n)
            = (if has_key ''error'' ?r then fs (results_path dir n)
               else Some \<lparr>json_value = ?r, json_indent = 2, json_ensure_ascii = False,
                          file_encoding = ''utf-8''\<rparr>)"
      by (simp add: save_results_def written_file_def)
  qed
  have c4: "path \<notin> results_path dir ` fst ` set adapters
      \<longrightarrow> fst (save_results os ?R dir fs) path = fs path"
    using save_each_other [of path dir ?R os fs] names
    by (simp add: save_results_def split: option.splits)
  have c5: "results_path dir a = results_path dir b \<longrightarrow> a = b"
    using results_path_inj by blast
  have c6: "\<not> has_key ''error'' ?r
        \<and> ''retriever'' \<notin> set metrics \<and> ''num_queries'' \<notin> set metrics
        \<and> ''raw_results'' \<notin> set metrics
      \<longrightarrow> (\<exists>dataset results raw.
              create_ragas_dataset adapter queries 5 = Inr dataset
            \<and> evaluate dataset metrics = Inr results
            \<and> results_str results = Inr raw
            \<and> map_of ?r ''retriever'' = Some (JStr n)
            \<and> map_of ?r ''num_queries'' = Some (JInt (int (length dataset)))
            \<and> map_of ?r ''raw_results'' = Some (JStr raw))"
    using evaluate_retriever_fields [of metrics evaluate n adapter queries] by blast
  from c1 c2 c3 c4 c5 c6 show ?thesis by (intro conjI)
qed

lemma eval_flaky:
  "fst (evaluate_retriever [score_key] (\<lambda>d m. Inr renamed_results) ''simple_rag''
          (adapter_retrieve flaky_retriever) [''q1'', ''q2'', ''q3'']) = renamed_record"
  using contains_renamed
  by (simp add: evaluate_retriever_def create_ragas_dataset_adapter vr1 build_result_def
        renamed_results_def extract_scores_def base_record_def renamed_record_def)

lemma eval_dead:
  "fst (evaluate_retriever [score_key] (\<lambda>d m. Inr renamed_results) retriever_name
          (adapter_retrieve dead_retriever) [''q1'', ''q2'', ''q3''])
     = [(''error'', JStr ''No valid data'')]"
  by (simp add: evaluate_retriever_def create_ragas_dataset_adapter vr2 error_result_def)

lemma path_simple: "results_path ''evaluation'' ''simple_rag'' = ''evaluation/results_simple_rag.json''"
  by (simp add: results_path_def os_path_join_def)

lemma path_summary: "results_path ''evaluation'' ''summary_rag'' = ''evaluation/results_summary_rag.json''"
  by (simp add: results_path_def os_path_join_def)

lemma no_error_renamed: "\<not> has_key ''error'' renamed_record"
  by (simp add: has_key_def renamed_record_def)

lemma error_key: "has_key ''error'' [(''error'', JStr ''No valid data'')]"
  by (simp add: has_key_def)

lemma old_fs_summary:
  "[''evaluation/results_summary_rag.json'' \<mapsto> old_file]
     ''evaluation/results_summary_rag.json'' = Some old_file"
  by simp

lemma old_fs_other:
  "[''evaluation/results_summary_rag.json'' \<mapsto> old_file] ''evaluation/queries.json'' = None"
  by simp

lemma willing_makedirs: "os_makedirs willing_os ''evaluation'' = None"
  by (simp add: os_makedirs_def willing_os_def)

lemma willing_makedirs_empty:
  "os_makedirs willing_os [] =
     Some (Exn OtherException (''[Errno 2] No such file or directory: '' @ [CHR 0x27, CHR 0x27]))"
  by (simp add: os_makedirs_def)

theorem saved_result_files_witness:
  "snd (save_results willing_os
          (run_evaluation [score_key] (\<lambda>d m. Inr renamed_results) two_adapters
             [''q1'', ''q2'', ''q3''])
          ''evaluation'' [''evaluation/results_summary_rag.json'' \<mapsto> old_file]) = None
   \<and> fst (save_results willing_os
          (run_evaluation [score_key] (\<lambda>d m. Inr renamed_results) two_adapters
             [''q1'', ''q2'', ''q3''])
          ''evaluation'' [''evaluation/results_summary_rag.json'' \<mapsto> old_file])
        ''evaluation/results_simple_rag.json'' = Some (written_file renamed_record)
   \<and> fst (save_results willing_os
          (run_evaluation [score_key] (\<lambda>d m. Inr renamed_results) two_adapters
             [''q1'', ''q2'', ''q3''])
          ''evaluation'' [''evaluation/results_summary_rag.json'' \<mapsto> old_file])
        ''evaluation/results_summary_rag.json'' = Some old_file
   \<and> fst (save_results willing_os
          (run_evaluation [score_key] (\<lambda>d m. Inr renamed_results) two_adapters
             [''q1'', ''q2'', ''q3''])
          ''evaluation'' [''evaluation/results_summary_rag.json'' \<mapsto> old_file])
        ''evaluation/queries.json'' = None
   \<and> map_of renamed_record ''num_queries'' = Some (JInt 1)
   \<and> save_results willing_os
          (run_evaluation [score_key] (\<lambda>d m. Inr renamed_results) two_adapters
             [''q1'', ''q2'', ''q3''])
          [] [''evaluation/results_summary_rag.json'' \<mapsto> old_file]
       = ([''evaluation/results_summary_rag.json'' \<mapsto> old_file],
          Some (Exn OtherException
             (''[Errno 2] No such file or directory: '' @ [CHR 0x27, CHR 0x27])))"
proof -
  let ?ev = "\<lambda>(d::dataset) (m::string list). Inr renamed_results :: exn + ragas_results"
  let ?qs = "[''q1'', ''q2'', ''q3'']"
  let ?R = "run_evaluation [score_key] ?ev two_adapters ?qs"
  let ?fs = "[''evaluation/results_summary_rag.json'' \<mapsto> old_file]"
  let ?save = "save_results willing_os ?R ''evaluation'' ?fs"
  have opens: "\<forall>p \<in> set two_adapters. open_error willing_os (results_path ''evaluation'' (fst p)) = None"
    by (simp add: willing_os_def)
  have d: "distinct (map fst two_adapters)" by (simp add: two_adapters_def)
  have m1: "(''simple_rag'', adapter_retrieve flaky_retriever) \<in> set two_adapters"
    by (simp add: two_adapters_def)
  have m2: "(''summary_rag'', adapter_retrieve dead_retriever) \<in> set two_adapters"
    by (simp add: two_adapters_def)
  have other: "''evaluation/queries.json'' \<notin> results_path ''evaluation'' ` fst ` set two_adapters"
    by (simp add: two_adapters_def path_simple path_summary)
  have names: "''retriever'' \<notin> set [score_key]" "''num_queries'' \<notin> set [score_key]"
    "''raw_results'' \<notin> set [score_key]"
    by (simp_all add: score_key_def)
  note a = saved_result_files [of willing_os "''evaluation''" _ "[score_key]" ?ev two_adapters
      ?qs ?fs "''simple_rag''" "adapter_retrieve flaky_retriever" "''evaluation/queries.json''"
      "''simple_rag''" "''simple_rag''"]
  note b = saved_result_files [of willing_os "''evaluation''" _ "[score_key]" ?ev two_adapters
      ?qs ?fs "''summary_rag''" "adapter_retrieve dead_retriever"]
  note c = saved_result_files [of willing_os "[]"
      "Exn OtherException (''[Errno 2] No such file or directory: '' @ [CHR 0x27, CHR 0x27])"
      "[score_key]" ?ev two_adapters ?qs ?fs]
  from a willing_makedirs opens have w1: "snd ?save = None"
    by presburger
  from a willing_makedirs opens d m1
  have "fst ?save (results_path ''evaluation'' ''simple_rag'')
          = (if has_key ''error'' renamed_record
             then ?fs (results_path ''evaluation'' ''simple_rag'')
             else Some \<lparr>json_value = renamed_record, json_indent = 2, json_ensure_ascii = False,
                        file_encoding = ''utf-8''\<rparr>)"
    unfolding eval_flaky by presburger
  then have w2: "fst ?save ''evaluation/results_simple_rag.json'' = Some (written_file renamed_record)"
    by (simp only: path_simple no_error_renamed if_False written_file_def)
  from b willing_makedirs opens d m2
  have "fst ?save (results_path ''evaluation'' ''summary_rag'')
          = (if has_key ''error'' [(''error'', JStr ''No valid data'')]
             then ?fs (results_path ''evaluation'' ''summary_rag'')
             else Some \<lparr>json_value = [(''error'', JStr ''No valid data'')], json_indent = 2,
                        json_ensure_ascii = False, file_encoding = ''utf-8''\<rparr>)"
    unfolding eval_dead by presburger
  then have w3: "fst ?save ''evaluation/results_summary_rag.json'' = Some old_file"
    by (simp only: path_summary error_key if_True old_fs_summary)
  from a other have "fst ?save ''evaluation/queries.json'' = ?fs ''evaluation/queries.json''"
    by presburger
  then have w4: "fst ?save ''evaluation/queries.json'' = None"
    by (simp only: old_fs_other)
  from a names no_error_renamed
  obtain dataset where ds: "create_ragas_dataset (adapter_retrieve flaky_retriever) ?qs 5 = Inr dataset"
    and nq: "map_of renamed_record ''num_queries'' = Some (JInt (int (length dataset)))"
    unfolding eval_flaky by blast
  from ds have "dataset = [(''q3'', [''chunk1'', ''chunk2''])]"
    by (simp add: create_ragas_dataset_adapter vr1)
  with nq have w5: "map_of renamed_record ''num_queries'' = Some (JInt 1)"
    by simp
  from c willing_makedirs_empty
  have w6: "save_results willing_os ?R [] ?fs
       = (?fs, Some (Exn OtherException
             (''[Errno 2] No such file or directory: '' @ [CHR 0x27, CHR 0x27])))"
    by presburger
  from w1 w2 w3 w4 w5 w6 show ?thesis by (intro conjI)
qed

text \<open>
  The claim as written fails for a retriever without valid data: its result is an error
  record and \<open>save_results\<close> writes no file for it.
\<close>

theorem saved_result_files_counterexample:
  "run_evaluation [score_key] (\<lambda>d m. Inr renamed_results)
      [(''simple_rag'', adapter_retrieve dead_retriever)] [''q1'', ''q2'', ''q3'']
     = [(''simple_rag'', [(''error'', JStr ''No valid data'')])]
   \<and> save_results willing_os
        (run_evaluation [score_key] (\<lambda>d m. Inr renamed_results)
           [(''simple_rag'', adapter_retrieve dead_retriever)] [''q1'', ''q2'', ''q3''])
        ''evaluation'' Map.empty
      = (Map.empty, None)"
  by (simp add: eval_dead save_results_def willing_makedirs has_key_def)

section \<open>The session's exit handler\<close>

lemma strip_quit: "py_strip ''quit'' = ''quit''"
  by (simp add: py_strip_def whitespace_def)

lemma lower_quit: "py_lower ''quit'' = ''quit''"
  by (simp add: py_lower_def py_lower_char_def)

text \<open>
  Claim C6, at an input where it fails. A session is left by the exit token and by a
  keyboard interrupt; in both runs the exit handler has been called and both connections are
  still open, since the body of \<open>__exit__\<close> is \<open>pass\<close>.
\<close>

theorem session_exit_releases_nothing:
  "conns (fst (main env0 ''P'' echo_mentis [Line ''quit'']))
     = \<lparr>vector_store_open = True, llm_client_open = True\<rparr>
   \<and> snd (main env0 ''P'' echo_mentis [Line ''quit'']) = Finished
   \<and> conns (fst (main env0 ''P'' echo_mentis [Interrupt]))
     = \<lparr>vector_store_open = True, llm_client_open = True\<rparr>
   \<and> snd (main env0 ''P'' echo_mentis [Interrupt]) = Finished
   \<and> MentisChat_exit \<lparr>vector_store_open = True, llm_client_open = True\<rparr>
     = \<lparr>vector_store_open = True, llm_client_open = True\<rparr>"
  by (simp add: main_def env_missing_def env0_def strip_quit lower_quit exit_tokens_def
        MentisChat_init_def MentisChat_enter_def MentisChat_exit_def print_def prompted_def
        initial_state_def)

end
